theory Spec2Isabelle
  imports Complex_Main "HOL-Library.Word"
begin

section \<open>Python values used by the ISF reader\<close>

text \<open>
  The repository holds two readers of Tektronix ISF files: \<^verbatim>\<open>src/isfread.py\<close>
  (Python 2, function \<^verbatim>\<open>isfread\<close>) and \<^verbatim>\<open>src/isfread_py3.py\<close> (Python 3,
  function \<^verbatim>\<open>isfread\<close>, here \<open>isfread_py3\<close>).

  A byte string (Python 3 \<^verbatim>\<open>bytes\<close>, the file contents) is a \<open>string\<close>, one \<open>char\<close>
  per byte. A text string (Python 3 \<^verbatim>\<open>str\<close>) is a list of code points. A Python 2
  \<^verbatim>\<open>str\<close> is a byte string; the shared helper functions see it through \<open>text_of\<close>, one
  code point per byte.
\<close>

type_synonym bytes = string
type_synonym utext = "nat list"

definition text_of :: "string \<Rightarrow> utext" where
  "text_of s = map of_char s"

text \<open>A Python number is an unbounded integer or a float; the float type is a parameter.\<close>

datatype 'f number = PInt int | PFloat 'f

datatype error =
    MalformedHeader \<comment> \<open>\<^verbatim>\<open>sys.exit('error: can`t find ":CURV #" nor ":CURVE #".')\<close>\<close>
  | ByteCountMismatch \<comment> \<open>\<^verbatim>\<open>sys.exit('error: intNofDataBytes != intCalculatedNofBytes.')\<close>\<close>
  | UnsupportedPointFormat \<comment> \<open>\<^verbatim>\<open>sys.exit('error: plotformat != "Y" or "ENV".')\<close>\<close>
  | ValueError \<comment> \<open>\<^verbatim>\<open>int()\<close> or \<^verbatim>\<open>float()\<close> of an invalid literal\<close>
  | KeyError \<comment> \<open>\<^verbatim>\<open>dict_endian[...]\<close> on a missing key\<close>
  | IndexError \<comment> \<open>\<^verbatim>\<open>bytesHeader[i]\<close> out of range\<close>
  | StructError \<comment> \<open>\<^verbatim>\<open>struct.error\<close>\<close>
  | UnicodeDecodeError
  | OverflowError \<comment> \<open>int too large to convert to float\<close>
  | ClosedFileError \<comment> \<open>\<^verbatim>\<open>ValueError: I/O operation on closed file\<close>\<close>
  | SeekError \<comment> \<open>seek to a negative offset\<close>
  | TypeError \<comment> \<open>\<^verbatim>\<open>range()\<close> of a float\<close>

text \<open>
  The primitives of the Python runtime whose full semantics (Unicode tables, IEEE
  arithmetic, codecs) lie outside the repository are parameters of the model. Every
  theorem below holds for every runtime.
\<close>

record 'f runtime =
  to_int :: "utext \<Rightarrow> int option" \<comment> \<open>\<^verbatim>\<open>int(s)\<close> on a text string; \<open>None\<close> is ValueError\<close>
  bytes_to_int :: "bytes \<Rightarrow> int option" \<comment> \<open>\<^verbatim>\<open>int(b)\<close> on a bytes object\<close>
  to_float :: "utext \<Rightarrow> 'f option" \<comment> \<open>\<^verbatim>\<open>float(s)\<close>\<close>
  utf8_decode :: "bytes \<Rightarrow> utext option" \<comment> \<open>\<^verbatim>\<open>b.decode('utf-8')\<close>\<close>
  isspace :: "nat \<Rightarrow> bool" \<comment> \<open>the characters \<^verbatim>\<open>lstrip()\<close> removes\<close>
  float_of_int :: "int \<Rightarrow> 'f option" \<comment> \<open>int to float; \<open>None\<close> is OverflowError\<close>
  fadd :: "'f \<Rightarrow> 'f \<Rightarrow> 'f"
  fsub :: "'f \<Rightarrow> 'f \<Rightarrow> 'f"
  fmul :: "'f \<Rightarrow> 'f \<Rightarrow> 'f"
  feq_int :: "'f \<Rightarrow> int \<Rightarrow> bool" \<comment> \<open>\<^verbatim>\<open>x == n\<close> for a float and an int\<close>
  int_half :: "int \<Rightarrow> int" \<comment> \<open>\<^verbatim>\<open>int(n / 2.)\<close>\<close>

subsection \<open>Arithmetic on numbers\<close>

definition arith ::
  "'f runtime \<Rightarrow> (int \<Rightarrow> int \<Rightarrow> int) \<Rightarrow> ('f \<Rightarrow> 'f \<Rightarrow> 'f) \<Rightarrow> 'f number \<Rightarrow> 'f number
     \<Rightarrow> error + 'f number" where
  "arith R iop fop a b =
     (case (a, b) of
        (PInt x, PInt y) \<Rightarrow> Inr (PInt (iop x y))
      | (PFloat x, PFloat y) \<Rightarrow> Inr (PFloat (fop x y))
      | (PInt x, PFloat y) \<Rightarrow>
          (case float_of_int R x of None \<Rightarrow> Inl OverflowError
           | Some x' \<Rightarrow> Inr (PFloat (fop x' y)))
      | (PFloat x, PInt y) \<Rightarrow>
          (case float_of_int R y of None \<Rightarrow> Inl OverflowError
           | Some y' \<Rightarrow> Inr (PFloat (fop x y'))))"

definition py_add :: "'f runtime \<Rightarrow> 'f number \<Rightarrow> 'f number \<Rightarrow> error + 'f number" where
  "py_add R = arith R (+) (fadd R)"

definition py_sub :: "'f runtime \<Rightarrow> 'f number \<Rightarrow> 'f number \<Rightarrow> error + 'f number" where
  "py_sub R = arith R (-) (fsub R)"

definition py_mul :: "'f runtime \<Rightarrow> 'f number \<Rightarrow> 'f number \<Rightarrow> error + 'f number" where
  "py_mul R = arith R (*) (fmul R)"

definition bind_err :: "error + 'a \<Rightarrow> ('a \<Rightarrow> error + 'b) \<Rightarrow> error + 'b" where
  "bind_err m k = (case m of Inl e \<Rightarrow> Inl e | Inr x \<Rightarrow> k x)"

fun map_err :: "('a \<Rightarrow> error + 'b) \<Rightarrow> 'a list \<Rightarrow> error + 'b list" where
  "map_err g [] = Inr []"
| "map_err g (x # xs) =
     bind_err (g x) (\<lambda>y. bind_err (map_err g xs) (\<lambda>ys. Inr (y # ys)))"

subsection \<open>Substring search and slicing\<close>

fun startswith :: "'a list \<Rightarrow> 'a list \<Rightarrow> bool" where
  "startswith s [] = True"
| "startswith [] (c # sub) = False"
| "startswith (x # s) (c # sub) = (x = c \<and> startswith s sub)"

fun index_of :: "'a list \<Rightarrow> 'a list \<Rightarrow> nat option" where
  "index_of [] sub = (if sub = [] then Some 0 else None)"
| "index_of (x # s) sub =
     (if startswith (x # s) sub then Some 0 else map_option Suc (index_of s sub))"

definition clamp_index :: "int \<Rightarrow> int \<Rightarrow> int" where
  "clamp_index n i = (if i < 0 then max 0 (i + n) else min i n)"

text \<open>\<^verbatim>\<open>s.find(sub, start)\<close>: the lowest index at or after \<open>start\<close>, or \<open>-1\<close>.\<close>

definition find :: "'a list \<Rightarrow> 'a list \<Rightarrow> int \<Rightarrow> int" where
  "find s sub start =
     (let n = int (length s);
          st = (if start < 0 then max 0 (start + n) else start)
      in if st > n then -1
         else (case index_of (drop (nat st) s) sub of
                 None \<Rightarrow> -1
               | Some k \<Rightarrow> st + int k))"

text \<open>\<^verbatim>\<open>s[a:b]\<close>\<close>

definition slice :: "'a list \<Rightarrow> int \<Rightarrow> int \<Rightarrow> 'a list" where
  "slice s a b =
     (let n = int (length s); a' = clamp_index n a; b' = clamp_index n b
      in take (nat (b' - a')) (drop (nat a') s))"

definition lstrip :: "'f runtime \<Rightarrow> utext \<Rightarrow> utext" where
  "lstrip R s = dropWhile (isspace R) s"

section \<open>The tag extractors (identical in both files)\<close>

definition getnum :: "'f runtime \<Rightarrow> utext \<Rightarrow> utext \<Rightarrow> error + 'f number" where
  "getnum R string tag =
     (let n1 = find string tag 0;
          n2 = find string (text_of '';'') n1;
          s2 = slice string (n1 + int (length tag)) n2;
          j = find s2 (text_of ''.'') 0
      in if j = -1 then
           (case to_int R (slice string (n1 + int (length tag)) n2) of
              None \<Rightarrow> Inl ValueError | Some i \<Rightarrow> Inr (PInt i))
         else
           (case to_float R (slice string (n1 + int (length tag)) n2) of
              None \<Rightarrow> Inl ValueError | Some x \<Rightarrow> Inr (PFloat x)))"

definition getstr :: "'f runtime \<Rightarrow> utext \<Rightarrow> utext \<Rightarrow> utext" where
  "getstr R string tag =
     (let n1 = find string tag 0;
          n2 = find string (text_of '';'') n1
      in lstrip R (slice string (n1 + int (length tag)) n2))"

definition getquotedstr :: "utext \<Rightarrow> utext \<Rightarrow> utext" where
  "getquotedstr string tag =
     (let n1 = find string tag 0;
          n2 = find string (text_of ''\"'') (n1 + 1);
          n3 = find string (text_of ''\"'') (n2 + 1)
      in slice string (n2 + 1) n3)"


text \<open>The sixteen entries of the header dictionary, in the order of the dict display.\<close>

record 'f header =
  bytenum :: "'f number"
  bitnum :: "'f number"
  encoding :: utext
  binformat :: utext
  byteorder :: utext
  wfid :: utext
  pointformat :: utext
  xunit :: utext
  yunit :: utext
  xzero :: "'f number"
  xincr :: "'f number"
  ptoff :: "'f number"
  ymult :: "'f number"
  yzero :: "'f number"
  yoff :: "'f number"
  npts :: "'f number"

record tags =
  t_bytenum :: string
  t_bitnum :: string
  t_encoding :: string
  t_binformat :: string
  t_byteorder :: string
  t_wfid :: string
  t_pointformat :: string
  t_xunit :: string
  t_yunit :: string
  t_xzero :: string
  t_xincr :: string
  t_ptoff :: string
  t_ymult :: string
  t_yzero :: string
  t_yoff :: string
  t_npts :: string

text \<open>The tag names of \<^verbatim>\<open>isfread.py\<close> and of the \<^verbatim>\<open>older_version\<close> branch.\<close>

definition older_tags :: tags where
  "older_tags = \<lparr>t_bytenum = ''BYT_NR'', t_bitnum = ''BIT_NR'', t_encoding = ''ENCDG'',
     t_binformat = ''BN_FMT'', t_byteorder = ''BYT_OR'', t_wfid = ''WFID'',
     t_pointformat = ''PT_FMT'', t_xunit = ''XUNIT'', t_yunit = ''YUNIT'',
     t_xzero = ''XZERO'', t_xincr = ''XINCR'', t_ptoff = ''PT_OFF'', t_ymult = ''YMULT'',
     t_yzero = ''YZERO'', t_yoff = ''YOFF'', t_npts = ''NR_PT''\<rparr>"

text \<open>The tag names of the \<^verbatim>\<open>else\<close> branch of \<^verbatim>\<open>isfread_py3.py\<close>.\<close>

definition newer_tags :: tags where
  "newer_tags = \<lparr>t_bytenum = ''BYT_N'', t_bitnum = ''BIT_N'', t_encoding = ''ENC'',
     t_binformat = ''BN_F'', t_byteorder = ''BYT_O'', t_wfid = ''WFI'',
     t_pointformat = ''PT_F'', t_xunit = ''XUN'', t_yunit = ''YUN'',
     t_xzero = ''XZE'', t_xincr = ''XIN'', t_ptoff = ''PT_O'', t_ymult = ''YMU'',
     t_yzero = ''YZE'', t_yoff = ''YOF'', t_npts = ''NR_P''\<rparr>"

text \<open>
  The dict display \<^verbatim>\<open>{'bytenum': getnum(...), ...}\<close>: the values are computed from
  left to right and the first exception ends the evaluation.
\<close>

definition read_header :: "'f runtime \<Rightarrow> utext \<Rightarrow> tags \<Rightarrow> error + 'f header" where
  "read_header R string T =
     bind_err (getnum R string (text_of (t_bytenum T))) (\<lambda>v_bytenum.
     bind_err (getnum R string (text_of (t_bitnum T))) (\<lambda>v_bitnum.
     bind_err (getnum R string (text_of (t_xzero T))) (\<lambda>v_xzero.
     bind_err (getnum R string (text_of (t_xincr T))) (\<lambda>v_xincr.
     bind_err (getnum R string (text_of (t_ptoff T))) (\<lambda>v_ptoff.
     bind_err (getnum R string (text_of (t_ymult T))) (\<lambda>v_ymult.
     bind_err (getnum R string (text_of (t_yzero T))) (\<lambda>v_yzero.
     bind_err (getnum R string (text_of (t_yoff T))) (\<lambda>v_yoff.
     bind_err (getnum R string (text_of (t_npts T))) (\<lambda>v_npts.
     Inr \<lparr>bytenum = v_bytenum, bitnum = v_bitnum,
          encoding = getstr R string (text_of (t_encoding T)),
          binformat = getstr R string (text_of (t_binformat T)),
          byteorder = getstr R string (text_of (t_byteorder T)),
          wfid = getquotedstr string (text_of (t_wfid T)),
          pointformat = getstr R string (text_of (t_pointformat T)),
          xunit = getquotedstr string (text_of (t_xunit T)),
          yunit = getquotedstr string (text_of (t_yunit T)),
          xzero = v_xzero, xincr = v_xincr, ptoff = v_ptoff, ymult = v_ymult,
          yzero = v_yzero, yoff = v_yoff, npts = v_npts\<rparr>)))))))))"

section \<open>Files and the standard output\<close>

record io =
  f_data :: bytes \<comment> \<open>the contents of the file\<close>
  f_pos :: nat \<comment> \<open>the position of the file object\<close>
  f_closed :: bool
  printed :: "string list" \<comment> \<open>the lines written by \<^verbatim>\<open>print\<close>\<close>

type_synonym 'a action = "io \<Rightarrow> (error + 'a) \<times> io"

definition ret :: "'a \<Rightarrow> 'a action" where
  "ret x = (\<lambda>s. (Inr x, s))"

definition raise :: "error \<Rightarrow> 'a action" where
  "raise e = (\<lambda>s. (Inl e, s))"

definition lift :: "error + 'a \<Rightarrow> 'a action" where
  "lift m = (\<lambda>s. (m, s))"

definition bind_io :: "'a action \<Rightarrow> ('a \<Rightarrow> 'b action) \<Rightarrow> 'b action" where
  "bind_io m k = (\<lambda>s. case m s of (Inl e, s') \<Rightarrow> (Inl e, s') | (Inr x, s') \<Rightarrow> k x s')"

definition fopen :: "bytes \<Rightarrow> io" where
  "fopen d = \<lparr>f_data = d, f_pos = 0, f_closed = False, printed = []\<rparr>"

text \<open>\<^verbatim>\<open>f.read(n)\<close>: at most \<open>n\<close> bytes from the position, all that is left when \<open>n < 0\<close>.\<close>

definition fread :: "int \<Rightarrow> bytes action" where
  "fread n = (\<lambda>s.
     if f_closed s then (Inl ClosedFileError, s)
     else let rest = drop (f_pos s) (f_data s);
              chunk = (if n < 0 then rest else take (nat n) rest)
          in (Inr chunk, s\<lparr>f_pos := f_pos s + length chunk\<rparr>))"

definition fseek :: "int \<Rightarrow> unit action" where
  "fseek p = (\<lambda>s.
     if f_closed s then (Inl ClosedFileError, s)
     else if p < 0 then (Inl SeekError, s)
     else (Inr (), s\<lparr>f_pos := nat p\<rparr>))"

definition fclose :: "unit action" where
  "fclose = (\<lambda>s. (Inr (), s\<lparr>f_closed := True\<rparr>))"

definition print :: "string \<Rightarrow> unit action" where
  "print line = (\<lambda>s. (Inr (), s\<lparr>printed := printed s @ [line]\<rparr>))"

section \<open>The struct module, for the format \<^verbatim>\<open>dict_endian[...] + str(npts) + 'h'\<close>\<close>

datatype endian = Big | Little

definition dict_endian :: "utext \<Rightarrow> endian option" where
  "dict_endian = [text_of ''MSB'' \<mapsto> Big, text_of ''LSB'' \<mapsto> Little]"

text \<open>
  The format string is kept as its two parts: the byte-order character and the number
  whose \<^verbatim>\<open>str()\<close> is the repeat count. \<^verbatim>\<open>str()\<close> of a negative integer or of a float
  holds a character that is no format code, and a size beyond \<open>PY_SSIZE_T_MAX\<close> (here
  of a 64-bit build) is refused: all three are \<^verbatim>\<open>struct.error\<close>.
\<close>

definition PY_SSIZE_T_MAX :: int where
  "PY_SSIZE_T_MAX = 2 ^ 63 - 1"

definition calcsize :: "endian \<times> 'f number \<Rightarrow> error + int" where
  "calcsize fmt =
     (case snd fmt of
        PInt k \<Rightarrow> if 0 \<le> k \<and> 2 * k \<le> PY_SSIZE_T_MAX then Inr (2 * k) else Inl StructError
      | PFloat x \<Rightarrow> Inl StructError)"

definition int16 :: "endian \<Rightarrow> char \<Rightarrow> char \<Rightarrow> int" where
  "int16 e a b =
     (case e of
        Big \<Rightarrow> sint (word_of_nat (of_char a * 256 + of_char b) :: 16 word)
      | Little \<Rightarrow> sint (word_of_nat (of_char b * 256 + of_char a) :: 16 word))"

fun shorts :: "endian \<Rightarrow> bytes \<Rightarrow> int list" where
  "shorts e (a # b # rest) = int16 e a b # shorts e rest"
| "shorts e rest = []"

definition unpack :: "endian \<times> 'f number \<Rightarrow> bytes \<Rightarrow> error + int list" where
  "unpack fmt data =
     bind_err (calcsize fmt) (\<lambda>size.
       if int (length data) \<noteq> size then Inl StructError
       else Inr (shorts (fst fmt) data))"


section \<open>Scaling the samples\<close>

text \<open>\<^verbatim>\<open>range(npts)\<close> and \<^verbatim>\<open>xrange(npts)\<close>\<close>

definition range_py :: "'f number \<Rightarrow> error + int list" where
  "range_py n = (case n of PInt k \<Rightarrow> Inr (map int [0..<nat k]) | PFloat x \<Rightarrow> Inl TypeError)"

text \<open>\<^verbatim>\<open>xzero + xincr*(i-ptoff)\<close>\<close>

definition time_at :: "'f runtime \<Rightarrow> 'f header \<Rightarrow> int \<Rightarrow> error + 'f number" where
  "time_at R h i =
     bind_err (py_sub R (PInt i) (ptoff h)) (\<lambda>d.
     bind_err (py_mul R (xincr h) d) (\<lambda>m.
     py_add R (xzero h) m))"

text \<open>\<^verbatim>\<open>xzero + xincr*(i-ptoff)*2\<close>\<close>

definition env_time_at :: "'f runtime \<Rightarrow> 'f header \<Rightarrow> int \<Rightarrow> error + 'f number" where
  "env_time_at R h i =
     bind_err (py_sub R (PInt i) (ptoff h)) (\<lambda>d.
     bind_err (py_mul R (xincr h) d) (\<lambda>m.
     bind_err (py_mul R m (PInt 2)) (\<lambda>m2.
     py_add R (xzero h) m2)))"

text \<open>\<^verbatim>\<open>yzero + ymult*(y-yoff)\<close>\<close>

definition value_of :: "'f runtime \<Rightarrow> 'f header \<Rightarrow> int \<Rightarrow> error + 'f number" where
  "value_of R h y =
     bind_err (py_sub R (PInt y) (yoff h)) (\<lambda>d.
     bind_err (py_mul R (ymult h) d) (\<lambda>m.
     py_add R (yzero h) m))"

text \<open>\<^verbatim>\<open>data[0:len(data):2]\<close>; \<^verbatim>\<open>data[1:len(data):2]\<close> is \<open>stride2 (drop 1 data)\<close>.\<close>

fun stride2 :: "'a list \<Rightarrow> 'a list" where
  "stride2 (x # y # rest) = x # stride2 rest"
| "stride2 rest = rest"

section \<open>\<^verbatim>\<open>src/isfread_py3.py\<close>\<close>

text \<open>
  The search for the marker, lines 81 to 91: the position, the length of the key found
  and \<^verbatim>\<open>older_version\<close>.
\<close>

definition locate_marker :: "bytes \<Rightarrow> error + (int \<times> nat \<times> bool)" where
  "locate_marker bytesHeader =
     (let key = '':CURV #'';
          intLocationOfColon = find bytesHeader key 0
      in if intLocationOfColon = -1 then
           (let key = '':CURVE #'';
                intLocationOfColon = find bytesHeader key 0
            in if intLocationOfColon = -1 then Inl MalformedHeader
               else Inr (intLocationOfColon, length key, True))
         else Inr (intLocationOfColon, length key, False))"

text \<open>\<^verbatim>\<open>s[i]\<close>\<close>

definition getitem :: "'a list \<Rightarrow> int \<Rightarrow> error + 'a" where
  "getitem s i =
     (let n = int (length s); j = (if i < 0 then i + n else i)
      in if 0 \<le> j \<and> j < n then Inr (s ! nat j) else Inl IndexError)"

definition parse_int :: "'f runtime \<Rightarrow> utext \<Rightarrow> error + int" where
  "parse_int R s = (case to_int R s of None \<Rightarrow> Inl ValueError | Some n \<Rightarrow> Inr n)"

definition parse_bytes_int :: "'f runtime \<Rightarrow> bytes \<Rightarrow> error + int" where
  "parse_bytes_int R s = (case bytes_to_int R s of None \<Rightarrow> Inl ValueError | Some n \<Rightarrow> Inr n)"

definition decode :: "'f runtime \<Rightarrow> bytes \<Rightarrow> error + utext" where
  "decode R b = (case utf8_decode R b of None \<Rightarrow> Inl UnicodeDecodeError | Some t \<Rightarrow> Inr t)"

text \<open>
  Lines 93 to 95: the digit after the marker, the cut of the header and its decoding.
  The result is the text that the tag extractors read, with the values kept for the
  seek.
\<close>

definition preamble ::
  "'f runtime \<Rightarrow> bytes \<Rightarrow> error + (utext \<times> int \<times> nat \<times> int \<times> bool)" where
  "preamble R bytesHeader =
     bind_err (locate_marker bytesHeader) (\<lambda>(intLocationOfColon, keylength, older_version).
     bind_err (getitem bytesHeader (intLocationOfColon + int keylength)) (\<lambda>c.
     bind_err (parse_int R [of_char c]) (\<lambda>intNofDigits.
     bind_err (decode R
        (slice bytesHeader 0 (intLocationOfColon + int keylength + 1 + intNofDigits)))
       (\<lambda>bytesHeader'.
     Inr (bytesHeader', intLocationOfColon, keylength, intNofDigits, older_version)))))"

text \<open>Lines 73 to 195: the header dictionary and \<^verbatim>\<open>intNofDataBytes\<close>.\<close>

definition extract_py3 :: "'f runtime \<Rightarrow> ('f header \<times> int) action" where
  "extract_py3 R =
     bind_io (fread 511) (\<lambda>bytesHeader.
     bind_io (lift (preamble R bytesHeader))
       (\<lambda>(bytesHeader', intLocationOfColon, keylength, intNofDigits, older_version).
     bind_io (lift (read_header R bytesHeader'
        (if older_version then older_tags else newer_tags))) (\<lambda>tupleHeader.
     bind_io (fseek (intLocationOfColon + int keylength + 1)) (\<lambda>_.
     bind_io (fread intNofDigits) (\<lambda>digits.
     bind_io (lift (parse_bytes_int R digits)) (\<lambda>intNofDataBytes.
     ret (tupleHeader, intNofDataBytes)))))))"

text \<open>Lines 206 to 222: the format, the check of the byte count and the samples.\<close>

definition unpack_py3 :: "'f header \<Rightarrow> int \<Rightarrow> int list action" where
  "unpack_py3 tupleHeader intNofDataBytes =
     bind_io (lift (case dict_endian (byteorder tupleHeader) of
                      None \<Rightarrow> Inl KeyError | Some e \<Rightarrow> Inr e)) (\<lambda>e.
     let fmt = (e, npts tupleHeader) in
     bind_io (lift (calcsize fmt)) (\<lambda>intCalculatedNofBytes.
     if intNofDataBytes \<noteq> intCalculatedNofBytes then raise ByteCountMismatch
     else
       bind_io (fread intCalculatedNofBytes) (\<lambda>string_data.
       bind_io (fread intCalculatedNofBytes) (\<lambda>string_data2.
       lift (unpack fmt string_data)))))"

text \<open>
  Lines 236 to 251. The value is the list of rows given to \<^verbatim>\<open>np.array\<close>; what numpy
  makes of them is not modelled.
\<close>

definition scale_py3 :: "'f runtime \<Rightarrow> 'f header \<Rightarrow> int list \<Rightarrow> 'f number list list action" where
  "scale_py3 R tupleHeader data =
     (if pointformat tupleHeader = text_of ''Y'' then
        bind_io (lift (range_py (npts tupleHeader))) (\<lambda>is.
        bind_io (lift (map_err (time_at R tupleHeader) is)) (\<lambda>listTime.
        bind_io (lift (map_err (value_of R tupleHeader) data)) (\<lambda>listValue.
        bind_io fclose (\<lambda>_.
        ret [listTime, listValue]))))
      else if pointformat tupleHeader = text_of ''ENV'' then
        bind_io (lift (case npts tupleHeader of
                         PInt k \<Rightarrow> range_py (PInt (int_half R k) :: 'f number)
                       | PFloat x \<Rightarrow> Inl TypeError)) (\<lambda>is.
        bind_io (lift (map_err (env_time_at R tupleHeader) is)) (\<lambda>listTime.
        bind_io (lift (map_err (value_of R tupleHeader) (stride2 data))) (\<lambda>listMinValue.
        bind_io (lift (map_err (value_of R tupleHeader) (stride2 (drop 1 data))))
          (\<lambda>listMaxValue.
        bind_io fclose (\<lambda>_.
        ret [listTime, listMinValue, listMaxValue])))))
      else raise UnsupportedPointFormat)"

text \<open>
  \<^verbatim>\<open>isfread(filename)\<close> with \<^verbatim>\<open>verbose\<close> and \<^verbatim>\<open>debug\<close> at their default \<^verbatim>\<open>False\<close>,
  run on an opened file.
\<close>

definition isfread_py3 :: "'f runtime \<Rightarrow> ('f number list list \<times> 'f header) action" where
  "isfread_py3 R =
     bind_io (extract_py3 R) (\<lambda>(tupleHeader, intNofDataBytes).
     bind_io (unpack_py3 tupleHeader intNofDataBytes) (\<lambda>data.
     bind_io (scale_py3 R tupleHeader data) (\<lambda>ndarrayValue.
     ret (ndarrayValue, tupleHeader))))"

section \<open>\<^verbatim>\<open>src/isfread.py\<close>\<close>

definition num_ne :: "'f runtime \<Rightarrow> 'f number \<Rightarrow> int \<Rightarrow> bool" where
  "num_ne R v k = (case v of PInt i \<Rightarrow> i \<noteq> k | PFloat x \<Rightarrow> \<not> feq_int R x k)"

text \<open>The condition of lines 113 to 115.\<close>

definition unsupported :: "'f runtime \<Rightarrow> 'f header \<Rightarrow> bool" where
  "unsupported R head \<longleftrightarrow>
     num_ne R (bytenum head) 2 \<or> num_ne R (bitnum head) 16 \<or>
     encoding head \<noteq> text_of ''BIN'' \<or> binformat head \<noteq> text_of ''RI'' \<or>
     pointformat head \<noteq> text_of ''Y''"

text \<open>Lines 63 to 131: the header dictionary, the check of the format and \<^verbatim>\<open>n1\<close>.\<close>

definition extract_py2 :: "'f runtime \<Rightarrow> ('f header \<times> int) action" where
  "extract_py2 R =
     bind_io (fread 511) (\<lambda>hdata.
     bind_io (lift (read_header R (text_of hdata) older_tags)) (\<lambda>head.
     bind_io (if unsupported R head
              then bind_io fclose (\<lambda>_. print ''Unable to process IFS file.'')
              else ret ()) (\<lambda>_.
     let ii = find hdata '':CURVE #'' 0 in
     bind_io (fseek (ii + 8)) (\<lambda>_.
     bind_io (fread 1) (\<lambda>c.
     bind_io (lift (parse_int R (text_of c))) (\<lambda>skip.
     bind_io (fread skip) (\<lambda>digits.
     bind_io (lift (parse_int R (text_of digits))) (\<lambda>n1.
     ret (head, n1)))))))))"

text \<open>Lines 143 to 156; a wrong byte count is a warning.\<close>

definition unpack_py2 :: "'f header \<Rightarrow> int \<Rightarrow> int list action" where
  "unpack_py2 head n1 =
     bind_io (lift (case dict_endian (byteorder head) of
                      None \<Rightarrow> Inl KeyError | Some e \<Rightarrow> Inr e)) (\<lambda>e.
     let fmt = (e, npts head) in
     bind_io (lift (calcsize fmt)) (\<lambda>n2.
     bind_io (if n1 \<noteq> n2
              then print ''WARNING: Something is not going as is was planned!!!''
              else ret ()) (\<lambda>_.
     bind_io (fread n2) (\<lambda>string_data.
     lift (unpack fmt string_data)))))"

text \<open>Lines 160 to 165.\<close>

definition scale_py2 ::
  "'f runtime \<Rightarrow> 'f header \<Rightarrow> int list \<Rightarrow> ('f number list \<times> 'f number list) action" where
  "scale_py2 R head data =
     bind_io (lift (map_err (value_of R head) data)) (\<lambda>v.
     bind_io (lift (range_py (npts head))) (\<lambda>is.
     bind_io (lift (map_err (time_at R head) is)) (\<lambda>x.
     bind_io fclose (\<lambda>_.
     ret (x, v)))))"

definition isfread ::
  "'f runtime \<Rightarrow> ('f number list \<times> 'f number list \<times> 'f header) action" where
  "isfread R =
     bind_io (extract_py2 R) (\<lambda>(head, n1).
     bind_io (unpack_py2 head n1) (\<lambda>data.
     bind_io (scale_py2 R head data) (\<lambda>(x, v).
     ret (x, v, head))))"

section \<open>A runtime for running the model\<close>

text \<open>
  An instance of the runtime for concrete runs: decimal literals in ASCII, with the
  blanks around them and the sign that \<^verbatim>\<open>int()\<close> and \<^verbatim>\<open>float()\<close> accept, ASCII as
  the decodable bytes, and exact rational arithmetic in the place of the doubles.
\<close>

fun digits_acc :: "nat \<Rightarrow> utext \<Rightarrow> nat option" where
  "digits_acc acc [] = Some acc"
| "digits_acc acc (c # cs) =
     (if 48 \<le> c \<and> c \<le> 57 then digits_acc (10 * acc + (c - 48)) cs else None)"

definition ascii_space :: "nat \<Rightarrow> bool" where
  "ascii_space c \<longleftrightarrow> c = 32 \<or> (9 \<le> c \<and> c \<le> 13)"

definition strip :: "utext \<Rightarrow> utext" where
  "strip s = rev (dropWhile ascii_space (rev (dropWhile ascii_space s)))"

definition unsigned_int :: "utext \<Rightarrow> int option" where
  "unsigned_int s = (if s = [] then None else map_option int (digits_acc 0 s))"

definition ascii_int :: "utext \<Rightarrow> int option" where
  "ascii_int s =
     (case strip s of
        [] \<Rightarrow> None
      | c # cs \<Rightarrow>
          if c = 45 then map_option uminus (unsigned_int cs)
          else if c = 43 then unsigned_int cs
          else unsigned_int (c # cs))"

definition unsigned_dec :: "utext \<Rightarrow> rat option" where
  "unsigned_dec s =
     (let ip = takeWhile (\<lambda>c. c \<noteq> 46) s;
          fp = drop 1 (dropWhile (\<lambda>c. c \<noteq> 46) s)
      in if ip = [] \<and> fp = [] then None
         else (case (digits_acc 0 ip, digits_acc 0 fp) of
                 (Some a, Some b) \<Rightarrow>
                   Some (of_nat a + of_nat b / of_nat (10 ^ length fp))
               | _ \<Rightarrow> None))"

definition ascii_float :: "utext \<Rightarrow> rat option" where
  "ascii_float s =
     (case strip s of
        [] \<Rightarrow> None
      | c # cs \<Rightarrow>
          if c = 45 then map_option uminus (unsigned_dec cs)
          else if c = 43 then unsigned_dec cs
          else unsigned_dec (c # cs))"

definition exact_runtime :: "rat runtime" where
  "exact_runtime = \<lparr>
     to_int = ascii_int,
     bytes_to_int = (\<lambda>b. ascii_int (text_of b)),
     to_float = ascii_float,
     utf8_decode = (\<lambda>b. if list_all (\<lambda>c. of_char c < (128::nat)) b then Some (text_of b) else None),
     isspace = ascii_space,
     float_of_int = (\<lambda>i. Some (of_int i)),
     fadd = (+), fsub = (-), fmul = (*),
     feq_int = (\<lambda>x n. x = of_int n),
     int_half = (\<lambda>n. if 0 \<le> n then n div 2 else - ((- n) div 2))\<rparr>"

section \<open>Searching and slicing\<close>

lemma startswith_iff: "startswith s sub \<longleftrightarrow> (\<exists>r. s = sub @ r)"
  by (induction s sub rule: startswith.induct) auto

lemma index_of_least:
  "k \<le> length s \<Longrightarrow> startswith (drop k s) sub \<Longrightarrow>
   (\<forall>j<k. \<not> startswith (drop j s) sub) \<Longrightarrow> index_of s sub = Some k"
proof (induction s arbitrary: k)
  case Nil
  then show ?case by (cases sub) auto
next
  case (Cons x s)
  show ?case
  proof (cases k)
    case 0
    with Cons.prems show ?thesis by simp
  next
    case (Suc k')
    from Cons.prems Suc have nohead: "\<not> startswith (x # s) sub"
      by (metis drop0 zero_less_Suc)
    have "\<forall>j<k'. \<not> startswith (drop j s) sub"
    proof (intro allI impI)
      fix j assume "j < k'"
      then have "Suc j < k" using Suc by simp
      with Cons.prems(3) have "\<not> startswith (drop (Suc j) (x # s)) sub" by blast
      then show "\<not> startswith (drop j s) sub" by simp
    qed
    with Cons.IH [of k'] Cons.prems Suc have "index_of s sub = Some k'" by simp
    with nohead Suc show ?thesis by simp
  qed
qed

lemma index_of_Some:
  "index_of s sub = Some k \<Longrightarrow>
   k \<le> length s \<and> startswith (drop k s) sub \<and> (\<forall>j<k. \<not> startswith (drop j s) sub)"
proof (induction s arbitrary: k)
  case Nil
  then show ?case by (auto split: if_splits)
next
  case (Cons x s)
  show ?case
  proof (cases "startswith (x # s) sub")
    case True
    with Cons.prems show ?thesis by simp
  next
    case False
    with Cons.prems obtain k' where k': "index_of s sub = Some k'" "k = Suc k'"
      by auto
    from Cons.IH [OF k'(1)] have ih: "k' \<le> length s" "startswith (drop k' s) sub"
      "\<forall>j<k'. \<not> startswith (drop j s) sub" by auto
    have "\<forall>j<k. \<not> startswith (drop j (x # s)) sub"
    proof (intro allI impI)
      fix j assume "j < k"
      show "\<not> startswith (drop j (x # s)) sub"
      proof (cases j)
        case 0 with False show ?thesis by simp
      next
        case (Suc j') with \<open>j < k\<close> k'(2) ih(3) show ?thesis by simp
      qed
    qed
    with ih k'(2) show ?thesis by simp
  qed
qed

lemma index_of_None:
  "index_of s sub = None \<Longrightarrow> j \<le> length s \<Longrightarrow> \<not> startswith (drop j s) sub"
proof (induction s arbitrary: j)
  case Nil
  then show ?case by (cases sub) (auto split: if_splits)
next
  case (Cons x s)
  then show ?case by (cases j) (auto split: if_splits)
qed

lemma index_of_single: "c \<notin> set a \<Longrightarrow> index_of (a @ c # b) [c] = Some (length a)"
  by (induction a) auto

lemma index_of_single_None: "index_of s [c] = None \<longleftrightarrow> c \<notin> set s"
proof (induction s)
  case Nil
  show ?case by simp
next
  case (Cons x s)
  then show ?case by (cases "index_of s [c]") auto
qed

lemma find_first:
  assumes "\<not> (\<exists>a b. pre @ sub @ rest = a @ sub @ b \<and> length a < length pre)"
  shows "find (pre @ sub @ rest) sub 0 = int (length pre)"
proof -
  let ?s = "pre @ sub @ rest"
  have 1: "startswith (drop (length pre) ?s) sub" by (simp add: startswith_iff)
  have 2: "\<forall>j<length pre. \<not> startswith (drop j ?s) sub"
  proof (intro allI impI notI)
    fix j assume j: "j < length pre" and "startswith (drop j ?s) sub"
    then obtain r where "drop j ?s = sub @ r" by (auto simp: startswith_iff)
    then have "?s = take j ?s @ sub @ r" by (metis append_take_drop_id)
    moreover have "length (take j ?s) < length pre" using j by simp
    ultimately show False using assms by blast
  qed
  have "index_of ?s sub = Some (length pre)"
    by (rule index_of_least) (use 1 2 in auto)
  then show ?thesis by (simp add: find_def)
qed

lemma find_single_from:
  assumes "c \<notin> set a"
  shows "find (pre @ a @ c # b) [c] (int (length pre)) = int (length pre + length a)"
  using assms by (simp add: find_def index_of_single)

lemma find_single_absent: "find s [c] 0 = -1 \<longleftrightarrow> c \<notin> set s"
proof (cases "index_of s [c]")
  case None
  then show ?thesis using index_of_single_None [of s c] by (simp add: find_def)
next
  case (Some k)
  then show ?thesis using index_of_single_None [of s c] by (simp add: find_def)
qed

lemma slice_middle:
  "slice (a @ v @ b) (int (length a)) (int (length a + length v)) = v"
  by (simp add: slice_def clamp_index_def)

lemma first_occurrenceI:
  assumes "index_of s sub = Some k"
  shows "\<not> (\<exists>a b. s = a @ sub @ b \<and> length a < k)"
proof
  assume "\<exists>a b. s = a @ sub @ b \<and> length a < k"
  then obtain a b where ab: "s = a @ sub @ b" "length a < k" by blast
  from index_of_Some [OF assms] ab(2) have "\<not> startswith (drop (length a) s) sub" by blast
  with ab(1) show False by (simp add: startswith_iff)
qed

section \<open>Numeric tags\<close>

text \<open>
  C6. When the text is \<open>pre @ tag @ val @ ';' # post\<close>, the tag does not occur at an
  earlier position and neither the tag nor \<open>val\<close> holds a \<open>;\<close> (code point 59), then
  \<^verbatim>\<open>getnum\<close> parses exactly \<open>val\<close>, the text between the end of the first occurrence
  of the tag and the next \<open>;\<close>: as a float when \<open>val\<close> holds a \<open>.\<close> (code point 46), as an
  integer otherwise; a text that the parser refuses is a \<^verbatim>\<open>ValueError\<close>. Both versions
  have the same \<^verbatim>\<open>getnum\<close>.
\<close>

theorem getnum_present:
  assumes first: "\<not> (\<exists>a b. pre @ tag @ val @ 59 # post = a @ tag @ b \<and> length a < length pre)"
    and nodelim: "59 \<notin> set tag" "59 \<notin> set val"
  shows "getnum R (pre @ tag @ val @ 59 # post) tag =
     (if 46 \<in> set val
      then (case to_float R val of None \<Rightarrow> Inl ValueError | Some x \<Rightarrow> Inr (PFloat x))
      else (case to_int R val of None \<Rightarrow> Inl ValueError | Some i \<Rightarrow> Inr (PInt i)))"
proof -
  let ?s = "pre @ tag @ val @ 59 # post"
  have n1: "find ?s tag 0 = int (length pre)"
    using find_first [of pre tag "val @ 59 # post"] first by simp
  have n2: "find ?s (text_of '';'') (int (length pre)) = int (length pre + length (tag @ val))"
    using find_single_from [of 59 "tag @ val" pre post] nodelim by (simp add: text_of_def)
  have sl: "slice ?s (int (length pre) + int (length tag)) (int (length pre + length (tag @ val))) = val"
    using slice_middle [of "pre @ tag" val "59 # post"] by (simp add: add.assoc)
  have dot: "find val (text_of ''.'') 0 = -1 \<longleftrightarrow> 46 \<notin> set val"
    using find_single_absent [of val 46] by (simp add: text_of_def)
  show ?thesis
    unfolding getnum_def Let_def n1 n2 sl using dot by auto
qed

theorem getnum_present_witness:
  "getnum exact_runtime (text_of ''XIN 1.5;NR_P 4;PT_F Y;'') (text_of ''NR_P'') = Inr (PInt 4) \<and>
   getnum exact_runtime (text_of ''XIN 1.5;NR_P 4;PT_F Y;'') (text_of ''XIN'') = Inr (PFloat (3 / 2))"
proof -
  have 1: "\<not> (\<exists>a b. text_of ''XIN 1.5;'' @ text_of ''NR_P'' @ text_of '' 4'' @ 59 # text_of ''PT_F Y;''
             = a @ text_of ''NR_P'' @ b \<and> length a < length (text_of ''XIN 1.5;''))"
    by (rule first_occurrenceI) (simp add: text_of_def)
  have 2: "\<not> (\<exists>a b. [] @ text_of ''XIN'' @ text_of '' 1.5'' @ 59 # text_of ''NR_P 4;PT_F Y;''
             = a @ text_of ''XIN'' @ b \<and> length a < length ([] :: utext))"
    by simp
  have a: "getnum exact_runtime (text_of ''XIN 1.5;NR_P 4;PT_F Y;'') (text_of ''NR_P'') = Inr (PInt 4)"
    using getnum_present [OF 1, of exact_runtime]
    by (simp add: text_of_def exact_runtime_def ascii_int_def strip_def ascii_space_def
        unsigned_int_def)
  have b: "getnum exact_runtime (text_of ''XIN 1.5;NR_P 4;PT_F Y;'') (text_of ''XIN'') = Inr (PFloat (3 / 2))"
    using getnum_present [OF 2, of exact_runtime]
    by (simp add: text_of_def exact_runtime_def ascii_float_def strip_def ascii_space_def
        unsigned_dec_def)
  from a b show ?thesis by simp
qed

end
